theory Spec2Isabelle
  imports Complex_Main
begin

section \<open>Numbers, arrays and fatal exits\<close>

text \<open>
  The vegetation movers of Raven (\<^verbatim>\<open>VegetationMovers.cpp\<close>) compute on C++ \<^verbatim>\<open>double\<close>s.
  The embedding reads a \<^verbatim>\<open>double\<close> as a \<^typ>\<open>real\<close>: rounding is not modelled, and the only
  operation that leaves the reals, a division by zero (IEEE gives an infinity or a NaN), is
  a branch of its own: \<open>divide_double\<close> returns \<open>Inl DivisionByZero\<close> and the
  computation stops with that value.

  A C array handed over as a bare pointer (\<^verbatim>\<open>state_vars\<close>, \<^verbatim>\<open>rates\<close>, \<^verbatim>\<open>iFrom\<close>, \<^verbatim>\<open>iTo\<close>)
  is a map from the index to the element, so that reading and writing any index is defined
  and no bound is assumed. The parameter \<^verbatim>\<open>tt\<close> (the time) is read by none of the functions and
  is left out.
\<close>

text \<open>
  Modelled from the spec: the exit codes of \<^verbatim>\<open>RavenInclude.h\<close> (not among the sources); these
  are the two the movers name, the configuration error and the unimplemented-feature marker.
\<close>

datatype exitcode = BAD_DATA | STUB

text \<open>
  Modelled from the spec: \<^verbatim>\<open>ExitGracefully(statement, code)\<close> is declared outside the sources;
  by the spec both kinds of error are fatal and halt execution, so a call is the error value
  \<open>ExitGracefully statement code\<close> and nothing after it runs.
\<close>

datatype error = ExitGracefully string exitcode | DivisionByZero

definition bindE :: "error + 'a \<Rightarrow> ('a \<Rightarrow> error + 'b) \<Rightarrow> error + 'b" where
  "bindE m f = (case m of Inl e \<Rightarrow> Inl e | Inr x \<Rightarrow> f x)"

definition divide_double :: "real \<Rightarrow> real \<Rightarrow> error + real" where
  "divide_double a b = (if b = 0 then Inl DivisionByZero else Inr (a / b))"

text \<open>
  Modelled from the spec: the helper \<^verbatim>\<open>threshMin(v1, v2, smooth_coeff)\<close> is defined outside
  the sources. The movers pass the smoothing coefficient \<^verbatim>\<open>0.0\<close> everywhere, and the spec
  writes the clamp of the drip rate and the slow-drain term with a plain \<open>min\<close>.
\<close>

definition threshMin :: "real \<Rightarrow> real \<Rightarrow> real \<Rightarrow> real" where
  "threshMin v1 v2 smooth_coeff = min v1 v2"

text \<open>
  Modelled from the spec: the helper \<^verbatim>\<open>threshMax(v1, v2, smooth_coeff)\<close> is defined outside
  the sources; it is called with the smoothing coefficient \<^verbatim>\<open>0.0\<close>, and the spec writes the
  Rutter overflow with a plain \<open>max\<close>.
\<close>

definition threshMax :: "real \<Rightarrow> real \<Rightarrow> real \<Rightarrow> real" where
  "threshMax v1 v2 smooth_coeff = max v1 v2"

text \<open>
  Modelled from the spec: the helper \<^verbatim>\<open>threshPositive(val)\<close> is defined outside the sources;
  the spec writes the overflow term of the slow drain as \<open>max (\<dots>) 0\<close>.
\<close>

definition threshPositive :: "real \<Rightarrow> real" where
  "threshPositive val = max val 0"

section \<open>The collaborators: registry, spatial unit, options\<close>

text \<open>
  The headers that declare the collaborators (\<^verbatim>\<open>RavenInclude.h\<close>, \<^verbatim>\<open>HydroProcessABC.h\<close>,
  the model and the spatial unit) are not among the sources. Each type below holds the
  members or fields that the movers name.
\<close>

text \<open>
  Modelled from the spec: \<^verbatim>\<open>sv_type\<close>, the semantic type of a compartment: canopy storage,
  canopy-snow storage, the atmosphere sink, the accumulated actual evapotranspiration, the
  optional trunk compartment, and ponded water (the usual destination of drip).
\<close>

datatype sv_type = CANOPY | CANOPY_SNOW | ATMOSPHERE | AET | TRUNK | PONDED_WATER

text \<open>
  Modelled from the spec: the type of a spatial unit; the movers apply to "standard" and
  "wetland" units, and the other members are the kinds that are neither.
\<close>

datatype HRU_type = HRU_STANDARD | HRU_LAKE | HRU_GLACIER | HRU_WETLAND | HRU_ROCK | HRU_INVALID_TYPE

text \<open>
  Modelled from the spec: the "does not exist" sentinel that the registry returns for a
  compartment that is absent, a negative magic integer. The movers test it both with
  \<^verbatim>\<open>==DOESNT_EXIST\<close> (evaporation) and with \<^verbatim>\<open><0\<close> (drip).
\<close>

definition DOESNT_EXIST :: int where
  "DOESNT_EXIST = - 1"

text \<open>
  Modelled from the spec: the state-variable registry \<^verbatim>\<open>pModel\<close>, which resolves a compartment
  type to an integer index or to the sentinel.
\<close>

record CModel =
  GetStateVarIndex :: "sv_type \<Rightarrow> int"

text \<open>
  Modelled from the spec: the unit properties and the forcing sample that the movers read
  through \<^verbatim>\<open>GetSurfaceProps()\<close>, \<^verbatim>\<open>GetVegVarProps()\<close>, \<^verbatim>\<open>GetVegetationProps()\<close> and
  \<^verbatim>\<open>GetForcingFunctions()\<close>: forest coverage fraction, canopy storage capacity, trunk,
  stemflow and drip fractions, potential evapotranspiration and wind velocity.
\<close>

record surface_struct =
  forest_coverage :: real

record veg_var_struct =
  capacity :: real

record veg_struct =
  trunk_fraction :: real
  stemflow_frac :: real
  drip_proportion :: real

record force_struct =
  PET :: real
  wind_vel :: real

text \<open>
  Modelled from the spec: the spatial-unit accessor \<^verbatim>\<open>CHydroUnit\<close>, with one field per accessor
  that the movers call.
\<close>

record CHydroUnit =
  GetHRUType :: HRU_type
  GetSurfaceProps :: surface_struct
  GetVegVarProps :: veg_var_struct
  GetVegetationProps :: veg_struct
  GetForcingFunctions :: force_struct

text \<open>
  Modelled from the spec: the run settings \<^verbatim>\<open>optStruct\<close>: the length of the time step and the
  flag that suppresses the competition for evapotranspiration.
\<close>

record optStruct =
  timestep :: real
  suppressCompetitiveET :: bool

section \<open>The process classes\<close>

text \<open>
  \<^verbatim>\<open>canevap_type\<close> and \<^verbatim>\<open>candrip_type\<close> are the enums of \<^verbatim>\<open>VegetationMovers.h\<close>. A C++ enum
  variable can hold a value that is none of its enumerators, and
  \<^verbatim>\<open>CmvCanopyEvap::GetRatesOfChange\<close> ends in an \<^verbatim>\<open>else\<close> for it: \<open>CANEVP_UNDECLARED\<close>
  stands for any such value, so that this branch is a branch of the model.
\<close>

datatype canevap_type = CANEVP_RUTTER | CANEVP_MAXIMUM | CANEVP_ALL | CANEVP_UNDECLARED

datatype candrip_type = CANDRIP_RUTTER | CANDRIP_SLOWDRAIN

text \<open>
  Modelled from the spec: \<^verbatim>\<open>sublimation_type\<close> is declared in \<^verbatim>\<open>SnowMovers.h\<close>, not among the
  sources. The movers name \<^verbatim>\<open>SUBLIM_MAXIMUM\<close>, \<^verbatim>\<open>SUBLIM_ALL\<close> and \<^verbatim>\<open>SUBLIM_SVERDRUP\<close>; the
  spec speaks of "Sverdrup/other wind-driven" variants, and \<open>SUBLIM_OTHER\<close> stands for
  those others.
\<close>

datatype sublimation_type = SUBLIM_MAXIMUM | SUBLIM_ALL | SUBLIM_SVERDRUP | SUBLIM_OTHER

text \<open>
  Modelled from the spec: the tag that each constructor hands to the base class; one member
  per mover.
\<close>

datatype process_type = CANOPY_EVAPORATION | CANOPY_SNOW_EVAPORATION | CANOPY_DRIP

text \<open>
  Modelled from the spec: the base class \<^verbatim>\<open>CHydroProcessABC\<close> is declared outside the
  sources. It carries the connectivity descriptor (\<^verbatim>\<open>iFrom\<close>, \<^verbatim>\<open>iTo\<close>, the number of
  connections) and the pointer \<^verbatim>\<open>pModel\<close> to the registry. Each mover of
  \<^verbatim>\<open>VegetationMovers.h\<close> extends it with its algorithm selector (the member \<^verbatim>\<open>type\<close> of each
  class, here named per class).
\<close>

record CHydroProcessABC =
  pModel :: CModel
  process :: process_type
  nConnections :: nat
  iFrom :: "nat \<Rightarrow> int"
  iTo :: "nat \<Rightarrow> int"

record CmvCanopyEvap = CHydroProcessABC +
  evap_type :: canevap_type

record CmvCanopySublimation = CHydroProcessABC +
  subl_type :: sublimation_type

record CmvCanopyDrip = CHydroProcessABC +
  drip_type :: candrip_type

subsection \<open>Constructors\<close>

text \<open>
  \<^verbatim>\<open>DynamicSpecifyConnections(n)\<close> (of the base class) sets the number of connections; the
  constructors then fill the first \<open>n\<close> entries of \<^verbatim>\<open>iFrom\<close> and \<^verbatim>\<open>iTo\<close> from the registry.
  The entries beyond \<open>n\<close>, which no mover reads, are \<open>DOESNT_EXIST\<close> here.
\<close>

definition new_CmvCanopyEvap :: "CModel \<Rightarrow> canevap_type \<Rightarrow> CmvCanopyEvap" where
  "new_CmvCanopyEvap m cetype =
     \<lparr> pModel = m, process = CANOPY_EVAPORATION, nConnections = 2,
       iFrom = (\<lambda>q. DOESNT_EXIST)(0 := GetStateVarIndex m CANOPY, 1 := GetStateVarIndex m AET),
       iTo = (\<lambda>q. DOESNT_EXIST)(0 := GetStateVarIndex m ATMOSPHERE, 1 := GetStateVarIndex m AET),
       evap_type = cetype \<rparr>"

definition new_CmvCanopySublimation :: "CModel \<Rightarrow> sublimation_type \<Rightarrow> CmvCanopySublimation" where
  "new_CmvCanopySublimation m cetype =
     \<lparr> pModel = m, process = CANOPY_SNOW_EVAPORATION, nConnections = 2,
       iFrom = (\<lambda>q. DOESNT_EXIST)(0 := GetStateVarIndex m CANOPY_SNOW, 1 := GetStateVarIndex m AET),
       iTo = (\<lambda>q. DOESNT_EXIST)(0 := GetStateVarIndex m ATMOSPHERE, 1 := GetStateVarIndex m AET),
       subl_type = cetype \<rparr>"

definition new_CmvCanopyDrip :: "CModel \<Rightarrow> candrip_type \<Rightarrow> int \<Rightarrow> error + CmvCanopyDrip" where
  "new_CmvCanopyDrip m cdtype to_index =
     (if to_index = DOESNT_EXIST
      then Inl (ExitGracefully ''CmvCanopyDrip Constructor: invalid to compartment specified'' BAD_DATA)
      else
        let iCan = GetStateVarIndex m CANOPY
        in Inr \<lparr> pModel = m, process = CANOPY_DRIP, nConnections = 1,
                 iFrom = (\<lambda>q. DOESNT_EXIST)(0 := iCan),
                 iTo = (\<lambda>q. DOESNT_EXIST)(0 := to_index),
                 drip_type = cdtype \<rparr>)"

subsection \<open>Canopy evaporation\<close>

text \<open>
  \<^verbatim>\<open>CmvCanopyEvap::GetRatesOfChange\<close>. The two early returns hand back the rate vector as it
  is at that point: untouched for a unit that is neither standard nor wetland, with entry 0
  set to zero when the forest coverage is zero. Each branch of the selector yields the rate
  vector together with \<^verbatim>\<open>PETused\<close>, which the last statement writes to entry 1.
\<close>

definition CmvCanopyEvap_GetRatesOfChange ::
  "CmvCanopyEvap \<Rightarrow> (int \<Rightarrow> real) \<Rightarrow> CHydroUnit \<Rightarrow> optStruct \<Rightarrow> (nat \<Rightarrow> real)
     \<Rightarrow> error + (nat \<Rightarrow> real)" where
  "CmvCanopyEvap_GetRatesOfChange p state_vars pHRU Options rates =
     (if GetHRUType pHRU \<noteq> HRU_STANDARD \<and> GetHRUType pHRU \<noteq> HRU_WETLAND then Inr rates
      else
        let Fc = forest_coverage (GetSurfaceProps pHRU);
            cap = capacity (GetVegVarProps pHRU);
            rates1 = rates(0 := 0)
        in
        if Fc = 0 then Inr rates1
        else
          let PET0 = max (PET (GetForcingFunctions pHRU)) 0;
              stor = min (max (state_vars (iFrom p 0)) 0) (cap * Fc)
          in
          bindE (if \<not> suppressCompetitiveET Options
                 then bindE (divide_double (state_vars (GetStateVarIndex (pModel p) AET))
                               (timestep Options))
                        (\<lambda>used. Inr (max (PET0 - used) 0))
                 else Inr PET0)
            (\<lambda>PET1.
               bindE
                 (case evap_type p of
                    CANEVP_RUTTER \<Rightarrow>
                      let Ft0 = trunk_fraction (GetVegetationProps pHRU);
                          Ft = (if GetStateVarIndex (pModel p) TRUNK = DOESNT_EXIST then 0 else Ft0)
                      in bindE (divide_double stor (cap * Fc))
                           (\<lambda>sat. let r = (1 - Ft) * Fc * PET1 * sat in Inr (rates1(0 := r), r))
                  | CANEVP_MAXIMUM \<Rightarrow>
                      let r = Fc * PET1 in Inr (rates1(0 := r), r)
                  | CANEVP_ALL \<Rightarrow>
                      bindE (divide_double (state_vars (iFrom p 0)) (timestep Options))
                        (\<lambda>r. Inr (rates1(0 := r), r))
                  | CANEVP_UNDECLARED \<Rightarrow>
                      Inl (ExitGracefully ''CmvCanopyEvap: this process not coded yet'' STUB))
                 (\<lambda>(rates2, PETused). Inr (rates2(1 := PETused)))))"

text \<open>
  \<^verbatim>\<open>CmvCanopyEvap::ApplyConstraints\<close>: the lower clamp, the upper clamp against what is in
  the source compartment, and the correction of the AET entry by what was clipped.
\<close>

definition CmvCanopyEvap_ApplyConstraints ::
  "CmvCanopyEvap \<Rightarrow> (int \<Rightarrow> real) \<Rightarrow> CHydroUnit \<Rightarrow> optStruct \<Rightarrow> (nat \<Rightarrow> real)
     \<Rightarrow> error + (nat \<Rightarrow> real)" where
  "CmvCanopyEvap_ApplyConstraints p state_vars pHRU Options rates =
     (if GetHRUType pHRU \<noteq> HRU_STANDARD \<and> GetHRUType pHRU \<noteq> HRU_WETLAND then Inr rates
      else
        let oldRates = rates 0;
            rates1 = rates(0 := max (rates 0) 0)
        in
        bindE (divide_double (state_vars (iFrom p 0)) (timestep Options))
          (\<lambda>avail.
             let rates2 = rates1(0 := min (rates1 0) avail)
             in Inr (rates2(1 := rates2 1 - (oldRates - rates2 0)))))"

subsection \<open>Canopy snow sublimation\<close>

text \<open>
  \<^verbatim>\<open>CmvCanopySublimation::GetRatesOfChange\<close>. In the last branch the call of
  \<^verbatim>\<open>ExitGracefully\<close> comes before the assignment from the external \<^verbatim>\<open>SublimationRate\<close>, which
  therefore never runs.
\<close>

definition CmvCanopySublimation_GetRatesOfChange ::
  "CmvCanopySublimation \<Rightarrow> (int \<Rightarrow> real) \<Rightarrow> CHydroUnit \<Rightarrow> optStruct \<Rightarrow> (nat \<Rightarrow> real)
     \<Rightarrow> error + (nat \<Rightarrow> real)" where
  "CmvCanopySublimation_GetRatesOfChange p state_vars pHRU Options rates =
     (if GetHRUType pHRU \<noteq> HRU_STANDARD \<and> GetHRUType pHRU \<noteq> HRU_WETLAND then Inr rates
      else
        let Fc = forest_coverage (GetSurfaceProps pHRU);
            rates1 = rates(0 := 0)
        in
        if Fc = 0 then Inr rates1
        else
          let PET0 = max (PET (GetForcingFunctions pHRU)) 0
          in
          bindE (if \<not> suppressCompetitiveET Options
                 then bindE (divide_double (state_vars (GetStateVarIndex (pModel p) AET))
                               (timestep Options))
                        (\<lambda>used. Inr (max (PET0 - used) 0))
                 else Inr PET0)
            (\<lambda>PET1.
               bindE
                 (if subl_type p = SUBLIM_MAXIMUM then
                    let r = Fc * PET1 in Inr (rates1(0 := r), r)
                  else if subl_type p = SUBLIM_ALL then
                    bindE (divide_double (state_vars (iFrom p 0)) (timestep Options))
                      (\<lambda>r. Inr (rates1(0 := r), r))
                  else
                    Inl (ExitGracefully ''SUBLIMATION CANOPY - must adjust wind velocity'' STUB))
                 (\<lambda>(rates2, PETused). Inr (rates2(1 := PETused)))))"

text \<open>\<^verbatim>\<open>CmvCanopySublimation::ApplyConstraints\<close>: the upper clamp only, then the AET entry.\<close>

definition CmvCanopySublimation_ApplyConstraints ::
  "CmvCanopySublimation \<Rightarrow> (int \<Rightarrow> real) \<Rightarrow> CHydroUnit \<Rightarrow> optStruct \<Rightarrow> (nat \<Rightarrow> real)
     \<Rightarrow> error + (nat \<Rightarrow> real)" where
  "CmvCanopySublimation_ApplyConstraints p state_vars pHRU Options rates =
     (if GetHRUType pHRU \<noteq> HRU_STANDARD \<and> GetHRUType pHRU \<noteq> HRU_WETLAND then Inr rates
      else
        let oldRates = rates 0
        in
        bindE (divide_double (state_vars (iFrom p 0)) (timestep Options))
          (\<lambda>avail.
             let rates1 = rates(0 := min (rates 0) avail)
             in Inr (rates1(1 := rates1 1 - (oldRates - rates1 0)))))"

subsection \<open>Canopy drip\<close>

text \<open>
  \<^verbatim>\<open>CmvCanopyDrip::GetRatesOfChange\<close>. The trunk test is \<^verbatim>\<open><0\<close> here. The slow-drain branch
  divides the storage by the coverage and by the time step, in the order of the source.
\<close>

definition CmvCanopyDrip_GetRatesOfChange ::
  "CmvCanopyDrip \<Rightarrow> (int \<Rightarrow> real) \<Rightarrow> CHydroUnit \<Rightarrow> optStruct \<Rightarrow> (nat \<Rightarrow> real)
     \<Rightarrow> error + (nat \<Rightarrow> real)" where
  "CmvCanopyDrip_GetRatesOfChange p state_vars pHRU Options rates =
     (if GetHRUType pHRU \<noteq> HRU_STANDARD \<and> GetHRUType pHRU \<noteq> HRU_WETLAND then Inr rates
      else
        let rates1 = rates(0 := 0);
            Fc = forest_coverage (GetSurfaceProps pHRU)
        in
        if Fc = 0 then Inr rates1
        else
          let stor = state_vars (iFrom p 0);
              cap = capacity (GetVegVarProps pHRU)
          in
          (case drip_type p of
             CANDRIP_RUTTER \<Rightarrow>
               let p0 = stemflow_frac (GetVegetationProps pHRU);
                   p1 = (if GetStateVarIndex (pModel p) TRUNK < 0 then 0 else p0)
               in bindE (divide_double (stor - Fc * cap) (timestep Options))
                    (\<lambda>over. Inr (rates1(0 := (1 - p1) * threshMax over 0 0)))
           | CANDRIP_SLOWDRAIN \<Rightarrow>
               let drip = drip_proportion (GetVegetationProps pHRU)
               in bindE (divide_double (stor - Fc * cap) (timestep Options))
                    (\<lambda>over.
                       bindE (divide_double stor Fc)
                         (\<lambda>s1.
                            bindE (divide_double stor Fc)
                              (\<lambda>s2.
                                 bindE (divide_double s2 (timestep Options))
                                   (\<lambda>s3. Inr (rates1(0 := threshPositive over
                                                            + threshMin (drip * s1) s3 0))))))))"

text \<open>\<^verbatim>\<open>CmvCanopyDrip::ApplyConstraints\<close>: the upper clamp only; no AET entry.\<close>

definition CmvCanopyDrip_ApplyConstraints ::
  "CmvCanopyDrip \<Rightarrow> (int \<Rightarrow> real) \<Rightarrow> CHydroUnit \<Rightarrow> optStruct \<Rightarrow> (nat \<Rightarrow> real)
     \<Rightarrow> error + (nat \<Rightarrow> real)" where
  "CmvCanopyDrip_ApplyConstraints p state_vars pHRU Options rates =
     (if GetHRUType pHRU \<noteq> HRU_STANDARD \<and> GetHRUType pHRU \<noteq> HRU_WETLAND then Inr rates
      else
        bindE (divide_double (state_vars (iFrom p 0)) (timestep Options))
          (\<lambda>avail. Inr (rates(0 := threshMin (rates 0) avail 0))))"

subsection \<open>Dispatch through the base class\<close>

text \<open>
  The integrator holds the movers as \<^verbatim>\<open>CHydroProcessABC\<close> pointers and calls the virtual
  functions; a value of \<open>canopy_process\<close> is one such pointer.
\<close>

datatype canopy_process =
    CanopyEvap CmvCanopyEvap
  | CanopySublimation CmvCanopySublimation
  | CanopyDrip CmvCanopyDrip

fun GetFromIndices :: "canopy_process \<Rightarrow> nat \<Rightarrow> int" where
  "GetFromIndices (CanopyEvap p) = iFrom p"
| "GetFromIndices (CanopySublimation p) = iFrom p"
| "GetFromIndices (CanopyDrip p) = iFrom p"

fun GetToIndices :: "canopy_process \<Rightarrow> nat \<Rightarrow> int" where
  "GetToIndices (CanopyEvap p) = iTo p"
| "GetToIndices (CanopySublimation p) = iTo p"
| "GetToIndices (CanopyDrip p) = iTo p"

fun GetNumConnections :: "canopy_process \<Rightarrow> nat" where
  "GetNumConnections (CanopyEvap p) = nConnections p"
| "GetNumConnections (CanopySublimation p) = nConnections p"
| "GetNumConnections (CanopyDrip p) = nConnections p"

fun GetRatesOfChange ::
  "canopy_process \<Rightarrow> (int \<Rightarrow> real) \<Rightarrow> CHydroUnit \<Rightarrow> optStruct \<Rightarrow> (nat \<Rightarrow> real)
     \<Rightarrow> error + (nat \<Rightarrow> real)" where
  "GetRatesOfChange (CanopyEvap p) = CmvCanopyEvap_GetRatesOfChange p"
| "GetRatesOfChange (CanopySublimation p) = CmvCanopySublimation_GetRatesOfChange p"
| "GetRatesOfChange (CanopyDrip p) = CmvCanopyDrip_GetRatesOfChange p"

fun ApplyConstraints ::
  "canopy_process \<Rightarrow> (int \<Rightarrow> real) \<Rightarrow> CHydroUnit \<Rightarrow> optStruct \<Rightarrow> (nat \<Rightarrow> real)
     \<Rightarrow> error + (nat \<Rightarrow> real)" where
  "ApplyConstraints (CanopyEvap p) = CmvCanopyEvap_ApplyConstraints p"
| "ApplyConstraints (CanopySublimation p) = CmvCanopySublimation_ApplyConstraints p"
| "ApplyConstraints (CanopyDrip p) = CmvCanopyDrip_ApplyConstraints p"

definition applicable :: "CHydroUnit \<Rightarrow> bool" where
  "applicable pHRU \<longleftrightarrow> GetHRUType pHRU = HRU_STANDARD \<or> GetHRUType pHRU = HRU_WETLAND"

section \<open>The integrator's call sequence\<close>

text \<open>
  The integrator that sequences the processes is an external collaborator, not among the
  sources; its three steps below follow the call contract of the spec.
\<close>

text \<open>
  Modelled from the spec: the call pair of the integrator. The rate vector is a
  per-invocation output buffer of the caller, handed over holding zeros;
  \<^verbatim>\<open>GetRatesOfChange\<close> fills it and \<^verbatim>\<open>ApplyConstraints\<close> receives exactly the vector it produced.
\<close>

definition ApplyProcess ::
  "canopy_process \<Rightarrow> (int \<Rightarrow> real) \<Rightarrow> CHydroUnit \<Rightarrow> optStruct \<Rightarrow> error + (nat \<Rightarrow> real)" where
  "ApplyProcess pr state_vars pHRU Options =
     bindE (GetRatesOfChange pr state_vars pHRU Options (\<lambda>q. 0))
       (\<lambda>rates. ApplyConstraints pr state_vars pHRU Options rates)"

text \<open>
  Modelled from the spec: the integrator applies the rates of a process to the state
  variables, connection by connection. A connection between two compartments moves
  \<open>rate * timestep\<close> from the source to the destination; a connection from a compartment to
  itself (the AET entry of evaporation and sublimation) credits the compartment with
  \<open>rate * timestep\<close>, the ledger write.
\<close>

fun UpdateStateVars ::
  "canopy_process \<Rightarrow> (nat \<Rightarrow> real) \<Rightarrow> real \<Rightarrow> nat list \<Rightarrow> (int \<Rightarrow> real) \<Rightarrow> (int \<Rightarrow> real)" where
  "UpdateStateVars pr rates tstep [] state_vars = state_vars"
| "UpdateStateVars pr rates tstep (q # qs) state_vars =
     UpdateStateVars pr rates tstep qs
       (if GetFromIndices pr q = GetToIndices pr q
        then state_vars(GetFromIndices pr q := state_vars (GetFromIndices pr q) + rates q * tstep)
        else
          let sv1 = state_vars(GetFromIndices pr q :=
                      state_vars (GetFromIndices pr q) - rates q * tstep)
          in sv1(GetToIndices pr q := sv1 (GetToIndices pr q) + rates q * tstep))"

text \<open>
  Modelled from the spec: one time step of the integrator over an ordered list of processes.
  Each process runs to completion and its rates are applied before the next one starts, so
  that it reads the AET left by the earlier ones. The result is the state after the last
  process and, per process, the AET consumption it recorded (entry 1 of its rate vector
  after \<^verbatim>\<open>ApplyConstraints\<close>).
\<close>

fun RunProcesses ::
  "canopy_process list \<Rightarrow> (int \<Rightarrow> real) \<Rightarrow> CHydroUnit \<Rightarrow> optStruct
     \<Rightarrow> error + ((int \<Rightarrow> real) \<times> real list)" where
  "RunProcesses [] state_vars pHRU Options = Inr (state_vars, [])"
| "RunProcesses (pr # prs) state_vars pHRU Options =
     bindE (ApplyProcess pr state_vars pHRU Options)
       (\<lambda>rates.
          bindE (RunProcesses prs
                   (UpdateStateVars pr rates (timestep Options) [0 ..< GetNumConnections pr]
                      state_vars)
                   pHRU Options)
            (\<lambda>(sv, used). Inr (sv, rates 1 # used)))"

section \<open>The formulas in the words of the spec\<close>

text \<open>
  The potential evapotranspiration budget of the spec: the forcing PET cut off at zero;
  unless competitive-ET suppression is configured, less the AET already consumed (divided
  by the time step) and cut off at zero again.
\<close>

definition PET_budget :: "real \<Rightarrow> bool \<Rightarrow> real \<Rightarrow> real \<Rightarrow> real" where
  "PET_budget forcingPET suppress currentAET tstep =
     (if suppress then max forcingPET 0
      else max (max forcingPET 0 - currentAET / tstep) 0)"

text \<open>
  The variants whose rate is a share of the PET budget: Rutter and Maximum evaporation and
  Maximum sublimation, as the constructors build them on the registry \<open>m\<close>. (The variants
  \<^verbatim>\<open>CANEVP_ALL\<close> and \<^verbatim>\<open>SUBLIM_ALL\<close> empty the storage whatever the budget is.)
\<close>

definition PET_limited :: "CModel \<Rightarrow> canopy_process set" where
  "PET_limited m =
     {CanopyEvap (new_CmvCanopyEvap m CANEVP_RUTTER),
      CanopyEvap (new_CmvCanopyEvap m CANEVP_MAXIMUM),
      CanopySublimation (new_CmvCanopySublimation m SUBLIM_MAXIMUM)}"

section \<open>Sample inputs\<close>

text \<open>
  A registry without a trunk compartment and one with it, and a unit and options that the
  scenarios below vary.
\<close>

definition registry :: CModel where
  "registry = \<lparr> GetStateVarIndex =
     (\<lambda>s. case s of CANOPY \<Rightarrow> 0 | CANOPY_SNOW \<Rightarrow> 1 | ATMOSPHERE \<Rightarrow> 2 | AET \<Rightarrow> 3
                   | TRUNK \<Rightarrow> DOESNT_EXIST | PONDED_WATER \<Rightarrow> 4) \<rparr>"

definition registry_with_trunk :: CModel where
  "registry_with_trunk = \<lparr> GetStateVarIndex =
     (\<lambda>s. case s of CANOPY \<Rightarrow> 0 | CANOPY_SNOW \<Rightarrow> 1 | ATMOSPHERE \<Rightarrow> 2 | AET \<Rightarrow> 3
                   | TRUNK \<Rightarrow> 5 | PONDED_WATER \<Rightarrow> 4) \<rparr>"

definition unit_of :: "HRU_type \<Rightarrow> real \<Rightarrow> real \<Rightarrow> real \<Rightarrow> CHydroUnit" where
  "unit_of ty Fc cap pet =
     \<lparr> GetHRUType = ty,
       GetSurfaceProps = \<lparr> forest_coverage = Fc \<rparr>,
       GetVegVarProps = \<lparr> capacity = cap \<rparr>,
       GetVegetationProps = \<lparr> trunk_fraction = 1/4, stemflow_frac = 1/5, drip_proportion = 1/10 \<rparr>,
       GetForcingFunctions = \<lparr> PET = pet, wind_vel = 1 \<rparr> \<rparr>"

definition daily :: optStruct where
  "daily = \<lparr> timestep = 1, suppressCompetitiveET = False \<rparr>"

definition storages :: "real \<Rightarrow> real \<Rightarrow> real \<Rightarrow> int \<Rightarrow> real" where
  "storages canopy snow aet = (\<lambda>i. 0)(0 := canopy, 1 := snow, 3 := aet)"

definition rates_of :: "real \<Rightarrow> real \<Rightarrow> nat \<Rightarrow> real" where
  "rates_of r0 r1 = (\<lambda>q. 0)(0 := r0, 1 := r1)"

definition drip_to_ponded :: "CModel \<Rightarrow> candrip_type \<Rightarrow> CmvCanopyDrip" where
  "drip_to_ponded m cdtype =
     \<lparr> pModel = m, process = CANOPY_DRIP, nConnections = 1,
       iFrom = (\<lambda>q. DOESNT_EXIST)(0 := GetStateVarIndex m CANOPY),
       iTo = (\<lambda>q. DOESNT_EXIST)(0 := GetStateVarIndex m PONDED_WATER),
       drip_type = cdtype \<rparr>"

section \<open>Evaluation lemmas\<close>

lemma bindE_simps:
  "bindE (Inl e) f = Inl e"
  "bindE (Inr x) f = f x"
  by (simp_all add: bindE_def)

lemma divide_double_simps:
  "b \<noteq> 0 \<Longrightarrow> divide_double a b = Inr (a / b)"
  "divide_double a 0 = Inl DivisionByZero"
  by (simp_all add: divide_double_def)

lemmas evalE = bindE_simps divide_double_simps Let_def

lemmas sample_defs = unit_of_def daily_def registry_def registry_with_trunk_def storages_def
  rates_of_def new_CmvCanopyEvap_def new_CmvCanopySublimation_def drip_to_ponded_def
  DOESNT_EXIST_def

lemma applicable_guard:
  "applicable pHRU \<Longrightarrow> \<not> (GetHRUType pHRU \<noteq> HRU_STANDARD \<and> GetHRUType pHRU \<noteq> HRU_WETLAND)"
  by (simp add: applicable_def)

lemma drip_to_ponded_constructed:
  "new_CmvCanopyDrip registry cdtype (GetStateVarIndex registry PONDED_WATER)
   = Inr (drip_to_ponded registry cdtype)"
proof -
  have "GetStateVarIndex registry PONDED_WATER \<noteq> DOESNT_EXIST"
    by (simp add: registry_def DOESNT_EXIST_def)
  then show ?thesis
    by (simp add: new_CmvCanopyDrip_def drip_to_ponded_def)
qed

text \<open>The competing-resource read of both evaporating movers computes the budget of the spec.\<close>

lemma PET_budget_read:
  assumes "suppressCompetitiveET Options \<or> timestep Options \<noteq> 0"
  shows "(if \<not> suppressCompetitiveET Options
          then bindE (divide_double aet (timestep Options)) (\<lambda>used. Inr (max (max pet 0 - used) 0))
          else Inr (max pet 0))
         = Inr (PET_budget pet (suppressCompetitiveET Options) aet (timestep Options))"
  using assms by (auto simp: PET_budget_def evalE)

text \<open>The rate vectors that the budget-limited variants hand back.\<close>

lemma evap_rutter_result:
  assumes "applicable pHRU"
    and "forest_coverage (GetSurfaceProps pHRU) \<noteq> 0"
    and "capacity (GetVegVarProps pHRU) \<noteq> 0"
    and "suppressCompetitiveET Options \<or> timestep Options \<noteq> 0"
    and "evap_type p = CANEVP_RUTTER"
    and "X = (1 - (if GetStateVarIndex (pModel p) TRUNK = DOESNT_EXIST then 0
                   else trunk_fraction (GetVegetationProps pHRU)))
             * forest_coverage (GetSurfaceProps pHRU)
             * PET_budget (PET (GetForcingFunctions pHRU)) (suppressCompetitiveET Options)
                 (state_vars (GetStateVarIndex (pModel p) AET)) (timestep Options)
             * (min (max (state_vars (iFrom p 0)) 0)
                  (capacity (GetVegVarProps pHRU) * forest_coverage (GetSurfaceProps pHRU))
                / (capacity (GetVegVarProps pHRU) * forest_coverage (GetSurfaceProps pHRU)))"
  shows "CmvCanopyEvap_GetRatesOfChange p state_vars pHRU Options rates
         = Inr (rates(0 := X, 1 := X))"
  using assms(2,3,5,6)
  by (simp add: CmvCanopyEvap_GetRatesOfChange_def applicable_guard [OF assms(1)]
      PET_budget_read [OF assms(4)] evalE)

lemma evap_maximum_result:
  assumes "applicable pHRU"
    and "forest_coverage (GetSurfaceProps pHRU) \<noteq> 0"
    and "suppressCompetitiveET Options \<or> timestep Options \<noteq> 0"
    and "evap_type p = CANEVP_MAXIMUM"
    and "X = forest_coverage (GetSurfaceProps pHRU)
             * PET_budget (PET (GetForcingFunctions pHRU)) (suppressCompetitiveET Options)
                 (state_vars (GetStateVarIndex (pModel p) AET)) (timestep Options)"
  shows "CmvCanopyEvap_GetRatesOfChange p state_vars pHRU Options rates
         = Inr (rates(0 := X, 1 := X))"
  using assms(2,4,5)
  by (simp add: CmvCanopyEvap_GetRatesOfChange_def applicable_guard [OF assms(1)]
      PET_budget_read [OF assms(3)] evalE)

lemma subl_maximum_result:
  assumes "applicable pHRU"
    and "forest_coverage (GetSurfaceProps pHRU) \<noteq> 0"
    and "suppressCompetitiveET Options \<or> timestep Options \<noteq> 0"
    and "subl_type p = SUBLIM_MAXIMUM"
    and "X = forest_coverage (GetSurfaceProps pHRU)
             * PET_budget (PET (GetForcingFunctions pHRU)) (suppressCompetitiveET Options)
                 (state_vars (GetStateVarIndex (pModel p) AET)) (timestep Options)"
  shows "CmvCanopySublimation_GetRatesOfChange p state_vars pHRU Options rates
         = Inr (rates(0 := X, 1 := X))"
  using assms(2,4,5)
  by (simp add: CmvCanopySublimation_GetRatesOfChange_def applicable_guard [OF assms(1)]
      PET_budget_read [OF assms(3)] evalE)

section \<open>Constraint application\<close>

text \<open>
  Claim C1 (no overdraft). For each of the three canopy processes, on a standard or wetland
  unit and with a positive time step, \<open>ApplyConstraints\<close> returns, whatever the state vector
  and the rate vector passed in, a rate vector whose entry 0 is at most the content of the
  source compartment divided by the time step.
\<close>

theorem no_overdraft:
  assumes "applicable pHRU" and "0 < timestep Options"
  shows "\<exists>r. ApplyConstraints pr state_vars pHRU Options rates = Inr r
           \<and> r 0 \<le> state_vars (GetFromIndices pr 0) / timestep Options"
proof (cases pr)
  case (CanopyEvap p)
  with assms show ?thesis
    by (auto simp: applicable_def CmvCanopyEvap_ApplyConstraints_def evalE)
next
  case (CanopySublimation p)
  with assms show ?thesis
    by (auto simp: applicable_def CmvCanopySublimation_ApplyConstraints_def evalE)
next
  case (CanopyDrip p)
  with assms show ?thesis
    by (auto simp: applicable_def CmvCanopyDrip_ApplyConstraints_def evalE threshMin_def)
qed

theorem no_overdraft_witness:
  "applicable (unit_of HRU_STANDARD (3/5) 5 4) \<and> 0 < timestep daily
   \<and> (\<exists>r. ApplyConstraints (CanopyEvap (new_CmvCanopyEvap registry CANEVP_RUTTER))
              (storages 2 0 0) (unit_of HRU_STANDARD (3/5) 5 4) daily (rates_of 5 5) = Inr r
          \<and> r 0 \<le> storages 2 0 0
                     (GetFromIndices (CanopyEvap (new_CmvCanopyEvap registry CANEVP_RUTTER)) 0)
                   / timestep daily)"
  using no_overdraft [of "unit_of HRU_STANDARD (3/5) 5 4" daily
      "CanopyEvap (new_CmvCanopyEvap registry CANEVP_RUTTER)" "storages 2 0 0" "rates_of 5 5"]
  by (simp add: applicable_def unit_of_def daily_def)

text \<open>
  Claim C2 (non-negativity), as the code has it. On a standard or wetland unit, with a
  positive time step and a source compartment that is not negative: canopy evaporation
  returns a rate vector whose entry 0 is not negative, whatever rate vector is passed in;
  canopy sublimation and canopy drip, which have no lower clamp, do so when entry 0 of the
  rate vector passed in is not negative.
\<close>

theorem nonneg_rate:
  assumes "applicable pHRU" and "0 < timestep Options"
  shows "(0 \<le> state_vars (iFrom pe 0) \<longrightarrow>
            (\<exists>r. CmvCanopyEvap_ApplyConstraints pe state_vars pHRU Options rates = Inr r
               \<and> 0 \<le> r 0))
       \<and> (0 \<le> state_vars (iFrom ps 0) \<and> 0 \<le> rates 0 \<longrightarrow>
            (\<exists>r. CmvCanopySublimation_ApplyConstraints ps state_vars pHRU Options rates = Inr r
               \<and> 0 \<le> r 0))
       \<and> (0 \<le> state_vars (iFrom pd 0) \<and> 0 \<le> rates 0 \<longrightarrow>
            (\<exists>r. CmvCanopyDrip_ApplyConstraints pd state_vars pHRU Options rates = Inr r
               \<and> 0 \<le> r 0))"
  using assms
  by (auto simp: applicable_def CmvCanopyEvap_ApplyConstraints_def
      CmvCanopySublimation_ApplyConstraints_def CmvCanopyDrip_ApplyConstraints_def
      threshMin_def evalE)

theorem nonneg_rate_witness:
  "applicable (unit_of HRU_STANDARD (3/5) 5 4) \<and> 0 < timestep daily
   \<and> 0 \<le> storages 2 2 0 (iFrom (new_CmvCanopyEvap registry CANEVP_RUTTER) 0)
   \<and> 0 \<le> storages 2 2 0 (iFrom (new_CmvCanopySublimation registry SUBLIM_MAXIMUM) 0)
   \<and> 0 \<le> storages 2 2 0 (iFrom (drip_to_ponded registry CANDRIP_RUTTER) 0)
   \<and> 0 \<le> rates_of 5 5 0
   \<and> CmvCanopyEvap_ApplyConstraints (new_CmvCanopyEvap registry CANEVP_RUTTER)
        (storages 2 2 0) (unit_of HRU_STANDARD (3/5) 5 4) daily (rates_of 5 5)
      = Inr (rates_of 2 2)
   \<and> CmvCanopySublimation_ApplyConstraints (new_CmvCanopySublimation registry SUBLIM_MAXIMUM)
        (storages 2 2 0) (unit_of HRU_STANDARD (3/5) 5 4) daily (rates_of 5 5)
      = Inr (rates_of 2 2)
   \<and> CmvCanopyDrip_ApplyConstraints (drip_to_ponded registry CANDRIP_RUTTER)
        (storages 2 2 0) (unit_of HRU_STANDARD (3/5) 5 4) daily (rates_of 5 5)
      = Inr (rates_of 2 5)"
  using nonneg_rate [of "unit_of HRU_STANDARD (3/5) 5 4" daily "storages 2 2 0"
      "new_CmvCanopyEvap registry CANEVP_RUTTER" "rates_of 5 5"
      "new_CmvCanopySublimation registry SUBLIM_MAXIMUM"
      "drip_to_ponded registry CANDRIP_RUTTER"]
  by (simp add: applicable_def sample_defs CmvCanopyEvap_ApplyConstraints_def
      CmvCanopySublimation_ApplyConstraints_def CmvCanopyDrip_ApplyConstraints_def
      threshMin_def evalE fun_eq_iff)

text \<open>
  Claim C2 as the spec states it fails: with a source storage of \<open>-1\<close> canopy evaporation
  turns the rate 5 into \<open>-1\<close> (the upper clamp comes after the lower one), and with a
  storage of 10 canopy sublimation and canopy drip hand the rate \<open>-3\<close> back as it came.
\<close>

theorem nonneg_rate_counterexample:
  "applicable (unit_of HRU_STANDARD (3/5) 5 4) \<and> 0 < timestep daily
   \<and> ApplyConstraints (CanopyEvap (new_CmvCanopyEvap registry CANEVP_RUTTER))
       (storages (- 1) 0 0) (unit_of HRU_STANDARD (3/5) 5 4) daily (rates_of 5 5)
     = Inr (rates_of (- 1) (- 1))
   \<and> ApplyConstraints (CanopySublimation (new_CmvCanopySublimation registry SUBLIM_MAXIMUM))
       (storages 0 10 0) (unit_of HRU_STANDARD (3/5) 5 4) daily (rates_of (- 3) 0)
     = Inr (rates_of (- 3) 0)
   \<and> ApplyConstraints (CanopyDrip (drip_to_ponded registry CANDRIP_RUTTER))
       (storages 10 0 0) (unit_of HRU_STANDARD (3/5) 5 4) daily (rates_of (- 3) 0)
     = Inr (rates_of (- 3) 0)
   \<and> \<not> 0 \<le> rates_of (- 1) (- 1) 0 \<and> \<not> 0 \<le> rates_of (- 3) 0 0"
  by (simp add: applicable_def sample_defs CmvCanopyEvap_ApplyConstraints_def
      CmvCanopySublimation_ApplyConstraints_def CmvCanopyDrip_ApplyConstraints_def
      threshMin_def evalE fun_eq_iff)

text \<open>
  Claim C3 (ledger correction). On a standard or wetland unit (and a time step that is not
  zero), \<open>ApplyConstraints\<close> of canopy evaporation and of canopy sublimation clamps entry 0
  and takes exactly what the clamp removed out of entry 1: the new entry 1 is the old one
  minus (old entry 0 minus clamped entry 0), and it is the old one when the clamp changes
  nothing. Scenario D (rate 5, storage 2, time step 1) is the witness: the rate becomes 2
  and the ledger entry goes down by 3.
\<close>

theorem ledger_delta:
  assumes "applicable pHRU" and "timestep Options \<noteq> 0"
  shows "(\<exists>r. CmvCanopyEvap_ApplyConstraints pe state_vars pHRU Options rates = Inr r
            \<and> r 0 = min (max (rates 0) 0) (state_vars (iFrom pe 0) / timestep Options)
            \<and> r 1 = rates 1 - (rates 0 - r 0)
            \<and> (r 0 = rates 0 \<longrightarrow> r 1 = rates 1))
       \<and> (\<exists>r. CmvCanopySublimation_ApplyConstraints ps state_vars pHRU Options rates = Inr r
            \<and> r 0 = min (rates 0) (state_vars (iFrom ps 0) / timestep Options)
            \<and> r 1 = rates 1 - (rates 0 - r 0)
            \<and> (r 0 = rates 0 \<longrightarrow> r 1 = rates 1))"
  using assms
  by (auto simp: applicable_def CmvCanopyEvap_ApplyConstraints_def
      CmvCanopySublimation_ApplyConstraints_def evalE)

theorem ledger_delta_witness:
  "applicable (unit_of HRU_WETLAND (3/5) 5 4) \<and> timestep daily \<noteq> 0
   \<and> CmvCanopyEvap_ApplyConstraints (new_CmvCanopyEvap registry CANEVP_MAXIMUM)
        (storages 2 2 0) (unit_of HRU_WETLAND (3/5) 5 4) daily (rates_of 5 5)
      = Inr (rates_of 2 (5 - 3))
   \<and> CmvCanopySublimation_ApplyConstraints (new_CmvCanopySublimation registry SUBLIM_MAXIMUM)
        (storages 2 2 0) (unit_of HRU_WETLAND (3/5) 5 4) daily (rates_of 5 5)
      = Inr (rates_of 2 (5 - 3))"
  using ledger_delta [of "unit_of HRU_WETLAND (3/5) 5 4" daily
      "new_CmvCanopyEvap registry CANEVP_MAXIMUM" "storages 2 2 0" "rates_of 5 5"
      "new_CmvCanopySublimation registry SUBLIM_MAXIMUM"]
  by (simp add: applicable_def sample_defs CmvCanopyEvap_ApplyConstraints_def
      CmvCanopySublimation_ApplyConstraints_def evalE fun_eq_iff)

section \<open>The shared evapotranspiration ledger\<close>

lemma fraction_product_le:
  fixes a Fc B sat :: real
  assumes "0 \<le> a" "a \<le> 1" "0 \<le> Fc" "Fc \<le> 1" "0 \<le> B" "0 \<le> sat" "sat \<le> 1"
  shows "a * Fc * B * sat \<le> B"
proof -
  have "a * Fc \<le> 1" using assms by (simp add: mult_le_one)
  moreover have "0 \<le> a * Fc" using assms by simp
  ultimately have "a * Fc * B \<le> B" using assms(5) by (simp add: mult_left_le_one_le)
  moreover have "0 \<le> a * Fc * B" using assms by simp
  ultimately have "a * Fc * B * sat \<le> a * Fc * B"
    using assms(6,7) by (simp add: mult_left_le)
  with \<open>a * Fc * B \<le> B\<close> show ?thesis by linarith
qed

lemma saturation_bounds:
  fixes s c :: real
  assumes "0 < c"
  shows "0 \<le> min (max s 0) c / c" and "min (max s 0) c / c \<le> 1"
  using assms by (simp_all add: min_def max_def)

lemma evap_constraints_bound:
  assumes "timestep Options \<noteq> 0" and "rates 1 = rates 0" and "rates 0 \<le> B" and "0 \<le> B"
  shows "\<exists>r. CmvCanopyEvap_ApplyConstraints p state_vars pHRU Options rates = Inr r \<and> r 1 \<le> B"
  using assms by (auto simp: CmvCanopyEvap_ApplyConstraints_def evalE)

lemma subl_constraints_bound:
  assumes "timestep Options \<noteq> 0" and "rates 1 = rates 0" and "rates 0 \<le> B" and "0 \<le> B"
  shows "\<exists>r. CmvCanopySublimation_ApplyConstraints p state_vars pHRU Options rates = Inr r
           \<and> r 1 \<le> B"
  using assms by (auto simp: CmvCanopySublimation_ApplyConstraints_def evalE)

text \<open>
  On a zeroed rate vector a budget-limited evaporation hands back equal entries 0 and 1,
  and no more than the budget \<open>B\<close> that is left.
\<close>

lemma evap_rates_bound:
  assumes dt: "0 < timestep Options" and ns: "\<not> suppressCompetitiveET Options"
    and Fc: "0 \<le> forest_coverage (GetSurfaceProps pHRU)"
      "forest_coverage (GetSurfaceProps pHRU) \<le> 1"
    and Ft: "0 \<le> trunk_fraction (GetVegetationProps pHRU)"
      "trunk_fraction (GetVegetationProps pHRU) \<le> 1"
    and cap: "0 < capacity (GetVegVarProps pHRU)"
    and ty: "evap_type p = CANEVP_RUTTER \<or> evap_type p = CANEVP_MAXIMUM"
    and B: "B = max (max (PET (GetForcingFunctions pHRU)) 0
                     - state_vars (GetStateVarIndex (pModel p) AET) / timestep Options) 0"
  shows "\<exists>r. CmvCanopyEvap_GetRatesOfChange p state_vars pHRU Options (\<lambda>q. 0) = Inr r
           \<and> r 1 = r 0 \<and> r 0 \<le> B"
proof -
  have B0: "0 \<le> B" by (simp add: B)
  have sup: "suppressCompetitiveET Options \<or> timestep Options \<noteq> 0" using dt by simp
  have bud: "PET_budget (PET (GetForcingFunctions pHRU)) (suppressCompetitiveET Options)
               (state_vars (GetStateVarIndex (pModel p) AET)) (timestep Options) = B"
    using ns by (simp add: PET_budget_def B)
  show ?thesis
  proof (cases "applicable pHRU \<and> forest_coverage (GetSurfaceProps pHRU) \<noteq> 0")
    case False
    then show ?thesis using B0
      by (auto simp: CmvCanopyEvap_GetRatesOfChange_def applicable_def)
  next
    case True
    then have app: "applicable pHRU" and Fc0: "forest_coverage (GetSurfaceProps pHRU) \<noteq> 0"
      by simp_all
    from Fc0 Fc(1) have "0 < forest_coverage (GetSurfaceProps pHRU)" by simp
    with cap have cF: "0 < capacity (GetVegVarProps pHRU) * forest_coverage (GetSurfaceProps pHRU)"
      by simp
    from ty show ?thesis
    proof
      assume r: "evap_type p = CANEVP_RUTTER"
      have c0: "capacity (GetVegVarProps pHRU) \<noteq> 0" using cap by simp
      have a: "0 \<le> 1 - (if GetStateVarIndex (pModel p) TRUNK = DOESNT_EXIST then 0
                          else trunk_fraction (GetVegetationProps pHRU))"
              "1 - (if GetStateVarIndex (pModel p) TRUNK = DOESNT_EXIST then 0
                    else trunk_fraction (GetVegetationProps pHRU)) \<le> 1"
        using Ft by simp_all
      note res = evap_rutter_result [where state_vars = state_vars, OF app Fc0 c0 sup r refl,
          unfolded bud]
      have "(1 - (if GetStateVarIndex (pModel p) TRUNK = DOESNT_EXIST then 0
                  else trunk_fraction (GetVegetationProps pHRU)))
              * forest_coverage (GetSurfaceProps pHRU) * B
              * (min (max (state_vars (iFrom p 0)) 0)
                   (capacity (GetVegVarProps pHRU) * forest_coverage (GetSurfaceProps pHRU))
                 / (capacity (GetVegVarProps pHRU) * forest_coverage (GetSurfaceProps pHRU)))
            \<le> B"
        by (rule fraction_product_le [OF a Fc B0 saturation_bounds [OF cF]])
      then show ?thesis
        by (simp only: res sum.inject fun_upd_apply simp_thms if_True if_False One_nat_def
            nat.simps ex_simps)
    next
      assume m: "evap_type p = CANEVP_MAXIMUM"
      note res = evap_maximum_result [where state_vars = state_vars, OF app Fc0 sup m refl,
          unfolded bud]
      have "forest_coverage (GetSurfaceProps pHRU) * B \<le> B"
        using Fc B0 by (simp add: mult_left_le_one_le)
      then show ?thesis
        by (simp add: res)
    qed
  qed
qed

lemma subl_rates_bound:
  assumes dt: "0 < timestep Options" and ns: "\<not> suppressCompetitiveET Options"
    and Fc: "0 \<le> forest_coverage (GetSurfaceProps pHRU)"
      "forest_coverage (GetSurfaceProps pHRU) \<le> 1"
    and ty: "subl_type p = SUBLIM_MAXIMUM"
    and B: "B = max (max (PET (GetForcingFunctions pHRU)) 0
                     - state_vars (GetStateVarIndex (pModel p) AET) / timestep Options) 0"
  shows "\<exists>r. CmvCanopySublimation_GetRatesOfChange p state_vars pHRU Options (\<lambda>q. 0) = Inr r
           \<and> r 1 = r 0 \<and> r 0 \<le> B"
proof -
  have B0: "0 \<le> B" by (simp add: B)
  have sup: "suppressCompetitiveET Options \<or> timestep Options \<noteq> 0" using dt by simp
  have bud: "PET_budget (PET (GetForcingFunctions pHRU)) (suppressCompetitiveET Options)
               (state_vars (GetStateVarIndex (pModel p) AET)) (timestep Options) = B"
    using ns by (simp add: PET_budget_def B)
  show ?thesis
  proof (cases "applicable pHRU \<and> forest_coverage (GetSurfaceProps pHRU) \<noteq> 0")
    case False
    then show ?thesis using B0
      by (auto simp: CmvCanopySublimation_GetRatesOfChange_def applicable_def)
  next
    case True
    then have app: "applicable pHRU" and Fc0: "forest_coverage (GetSurfaceProps pHRU) \<noteq> 0"
      by simp_all
    note res = subl_maximum_result [where state_vars = state_vars, OF app Fc0 sup ty refl,
        unfolded bud]
    have "forest_coverage (GetSurfaceProps pHRU) * B \<le> B"
      using Fc B0 by (simp add: mult_left_le_one_le)
    then show ?thesis
      by (simp add: res)
  qed
qed

text \<open>One call pair of the integrator consumes no more than the budget that is left.\<close>

lemma process_consumption:
  assumes dt: "0 < timestep Options" and ns: "\<not> suppressCompetitiveET Options"
    and Fc: "0 \<le> forest_coverage (GetSurfaceProps pHRU)"
      "forest_coverage (GetSurfaceProps pHRU) \<le> 1"
    and Ft: "0 \<le> trunk_fraction (GetVegetationProps pHRU)"
      "trunk_fraction (GetVegetationProps pHRU) \<le> 1"
    and cap: "0 < capacity (GetVegVarProps pHRU)"
    and pr: "pr \<in> PET_limited m"
  shows "\<exists>r. ApplyProcess pr state_vars pHRU Options = Inr r
           \<and> r 1 \<le> max (max (PET (GetForcingFunctions pHRU)) 0
                          - state_vars (GetStateVarIndex m AET) / timestep Options) 0"
proof -
  let ?B = "max (max (PET (GetForcingFunctions pHRU)) 0
                 - state_vars (GetStateVarIndex m AET) / timestep Options) 0"
  have dt0: "timestep Options \<noteq> 0" using dt by simp
  have B0: "0 \<le> ?B" by simp
  from pr consider (evap) ty where "pr = CanopyEvap (new_CmvCanopyEvap m ty)"
      "ty = CANEVP_RUTTER \<or> ty = CANEVP_MAXIMUM"
    | (subl) "pr = CanopySublimation (new_CmvCanopySublimation m SUBLIM_MAXIMUM)"
    by (auto simp: PET_limited_def)
  then show ?thesis
  proof cases
    case evap
    let ?p = "new_CmvCanopyEvap m ty"
    have ty: "evap_type ?p = CANEVP_RUTTER \<or> evap_type ?p = CANEVP_MAXIMUM"
      using evap(2) by (simp add: new_CmvCanopyEvap_def)
    have B: "?B = max (max (PET (GetForcingFunctions pHRU)) 0
                     - state_vars (GetStateVarIndex (pModel ?p) AET) / timestep Options) 0"
      by (simp add: new_CmvCanopyEvap_def)
    from evap_rates_bound [where state_vars = state_vars and p = ?p, OF dt ns Fc Ft cap ty B]
    obtain r where r: "CmvCanopyEvap_GetRatesOfChange ?p state_vars pHRU Options (\<lambda>q. 0) = Inr r"
      "r 1 = r 0" "r 0 \<le> ?B" by blast
    from evap_constraints_bound [OF dt0 r(2,3) B0, of ?p state_vars pHRU]
    show ?thesis
      by (simp add: ApplyProcess_def evap(1) r(1) bindE_simps)
  next
    case subl
    let ?p = "new_CmvCanopySublimation m SUBLIM_MAXIMUM"
    have ty: "subl_type ?p = SUBLIM_MAXIMUM"
      by (simp add: new_CmvCanopySublimation_def)
    have B: "?B = max (max (PET (GetForcingFunctions pHRU)) 0
                     - state_vars (GetStateVarIndex (pModel ?p) AET) / timestep Options) 0"
      by (simp add: new_CmvCanopySublimation_def)
    from subl_rates_bound [where state_vars = state_vars and p = ?p, OF dt ns Fc ty B]
    obtain r where r:
      "CmvCanopySublimation_GetRatesOfChange ?p state_vars pHRU Options (\<lambda>q. 0) = Inr r"
      "r 1 = r 0" "r 0 \<le> ?B" by blast
    from subl_constraints_bound [OF dt0 r(2,3) B0, of ?p state_vars pHRU]
    show ?thesis
      by (simp add: ApplyProcess_def subl r(1) bindE_simps)
  qed
qed

text \<open>Committing the rates of such a process credits the AET compartment with entry 1.\<close>

lemma AET_credited:
  assumes reg: "GetStateVarIndex m AET \<noteq> GetStateVarIndex m CANOPY"
      "GetStateVarIndex m AET \<noteq> GetStateVarIndex m CANOPY_SNOW"
      "GetStateVarIndex m AET \<noteq> GetStateVarIndex m ATMOSPHERE"
    and pr: "pr \<in> PET_limited m"
  shows "UpdateStateVars pr rates tstep [0 ..< GetNumConnections pr] state_vars
           (GetStateVarIndex m AET)
         = state_vars (GetStateVarIndex m AET) + rates 1 * tstep"
proof -
  have two: "[0 ..< 2] = [0, 1::nat]" by (simp add: upt_rec)
  from pr reg show ?thesis
    by (auto simp: PET_limited_def new_CmvCanopyEvap_def new_CmvCanopySublimation_def two)
qed

lemma run_bound:
  assumes dt: "0 < timestep Options" and ns: "\<not> suppressCompetitiveET Options"
    and Fc: "0 \<le> forest_coverage (GetSurfaceProps pHRU)"
      "forest_coverage (GetSurfaceProps pHRU) \<le> 1"
    and Ft: "0 \<le> trunk_fraction (GetVegetationProps pHRU)"
      "trunk_fraction (GetVegetationProps pHRU) \<le> 1"
    and cap: "0 < capacity (GetVegVarProps pHRU)"
    and reg: "GetStateVarIndex m AET \<noteq> GetStateVarIndex m CANOPY"
      "GetStateVarIndex m AET \<noteq> GetStateVarIndex m CANOPY_SNOW"
      "GetStateVarIndex m AET \<noteq> GetStateVarIndex m ATMOSPHERE"
  shows "set prs \<subseteq> PET_limited m \<Longrightarrow>
         state_vars (GetStateVarIndex m AET) / timestep Options
           \<le> max (PET (GetForcingFunctions pHRU)) 0 \<Longrightarrow>
         \<exists>sv used. RunProcesses prs state_vars pHRU Options = Inr (sv, used)
           \<and> state_vars (GetStateVarIndex m AET) / timestep Options + sum_list used
               \<le> max (PET (GetForcingFunctions pHRU)) 0"
proof (induction prs arbitrary: state_vars)
  case Nil
  then show ?case by simp
next
  case (Cons pr prs)
  let ?P = "max (PET (GetForcingFunctions pHRU)) 0"
  let ?A = "state_vars (GetStateVarIndex m AET) / timestep Options"
  from Cons.prems(1) have pr: "pr \<in> PET_limited m" and prs: "set prs \<subseteq> PET_limited m"
    by simp_all
  from process_consumption [OF dt ns Fc Ft cap pr, of state_vars]
  obtain r where r: "ApplyProcess pr state_vars pHRU Options = Inr r"
    and r1: "r 1 \<le> max (?P - ?A) 0" by blast
  from r1 Cons.prems(2) have step: "?A + r 1 \<le> ?P" by simp
  let ?sv = "UpdateStateVars pr r (timestep Options) [0 ..< GetNumConnections pr] state_vars"
  have aet: "?sv (GetStateVarIndex m AET) / timestep Options = ?A + r 1"
    using dt by (simp add: AET_credited [OF reg pr] add_divide_distrib)
  from step have "?sv (GetStateVarIndex m AET) / timestep Options \<le> ?P"
    by (simp only: aet)
  from Cons.IH [of ?sv, OF prs this]
  obtain sv used where run: "RunProcesses prs ?sv pHRU Options = Inr (sv, used)"
    and le: "?sv (GetStateVarIndex m AET) / timestep Options + sum_list used \<le> ?P" by blast
  from le have "?A + (r 1 + sum_list used) \<le> ?P"
    by (simp only: aet add.assoc)
  then show ?case
    by (simp add: r run bindE_simps)
qed

text \<open>
  Claim C4 (ledger conservation), as the code has it. Take any ordered list of
  budget-limited processes built on one registry (Rutter or Maximum evaporation, Maximum
  sublimation), a registry whose AET compartment is none of canopy, canopy snow and
  atmosphere, competitive-ET suppression off, a positive time step, AET at zero, and a unit
  whose forest coverage and trunk fraction lie in \<open>[0, 1]\<close> and whose capacity is positive.
  Then the time step runs through, and the AET consumptions recorded after
  \<open>ApplyConstraints\<close> (entry 1 of each process) sum to at most \<open>max PET 0\<close>.
\<close>

theorem ledger_conservation:
  assumes "0 < timestep Options" and "\<not> suppressCompetitiveET Options"
    and "0 \<le> forest_coverage (GetSurfaceProps pHRU)"
    and "forest_coverage (GetSurfaceProps pHRU) \<le> 1"
    and "0 \<le> trunk_fraction (GetVegetationProps pHRU)"
    and "trunk_fraction (GetVegetationProps pHRU) \<le> 1"
    and "0 < capacity (GetVegVarProps pHRU)"
    and "GetStateVarIndex m AET \<noteq> GetStateVarIndex m CANOPY"
    and "GetStateVarIndex m AET \<noteq> GetStateVarIndex m CANOPY_SNOW"
    and "GetStateVarIndex m AET \<noteq> GetStateVarIndex m ATMOSPHERE"
    and "set prs \<subseteq> PET_limited m"
    and "state_vars (GetStateVarIndex m AET) = 0"
  shows "\<exists>sv used. RunProcesses prs state_vars pHRU Options = Inr (sv, used)
           \<and> sum_list used \<le> max (PET (GetForcingFunctions pHRU)) 0"
proof -
  have "state_vars (GetStateVarIndex m AET) / timestep Options
          \<le> max (PET (GetForcingFunctions pHRU)) 0"
    using assms(12) by simp
  from run_bound [where state_vars = state_vars, OF assms(1-11) this] show ?thesis
    using assms(12) by simp
qed

theorem ledger_conservation_witness:
  "0 < timestep daily \<and> \<not> suppressCompetitiveET daily
   \<and> 0 \<le> forest_coverage (GetSurfaceProps (unit_of HRU_STANDARD (3/5) 5 4))
   \<and> forest_coverage (GetSurfaceProps (unit_of HRU_STANDARD (3/5) 5 4)) \<le> 1
   \<and> 0 \<le> trunk_fraction (GetVegetationProps (unit_of HRU_STANDARD (3/5) 5 4))
   \<and> trunk_fraction (GetVegetationProps (unit_of HRU_STANDARD (3/5) 5 4)) \<le> 1
   \<and> 0 < capacity (GetVegVarProps (unit_of HRU_STANDARD (3/5) 5 4))
   \<and> GetStateVarIndex registry AET \<noteq> GetStateVarIndex registry CANOPY
   \<and> GetStateVarIndex registry AET \<noteq> GetStateVarIndex registry CANOPY_SNOW
   \<and> GetStateVarIndex registry AET \<noteq> GetStateVarIndex registry ATMOSPHERE
   \<and> set [CanopyEvap (new_CmvCanopyEvap registry CANEVP_RUTTER),
           CanopySublimation (new_CmvCanopySublimation registry SUBLIM_MAXIMUM),
           CanopyEvap (new_CmvCanopyEvap registry CANEVP_MAXIMUM)] \<subseteq> PET_limited registry
   \<and> storages 2 1 0 (GetStateVarIndex registry AET) = 0
   \<and> (\<exists>sv used.
         RunProcesses [CanopyEvap (new_CmvCanopyEvap registry CANEVP_RUTTER),
                       CanopySublimation (new_CmvCanopySublimation registry SUBLIM_MAXIMUM),
                       CanopyEvap (new_CmvCanopyEvap registry CANEVP_MAXIMUM)]
           (storages 2 1 0) (unit_of HRU_STANDARD (3/5) 5 4) daily = Inr (sv, used)
         \<and> sum_list used \<le> max (PET (GetForcingFunctions (unit_of HRU_STANDARD (3/5) 5 4))) 0)
   \<and> map_sum id snd
         (RunProcesses [CanopyEvap (new_CmvCanopyEvap registry CANEVP_RUTTER),
                        CanopySublimation (new_CmvCanopySublimation registry SUBLIM_MAXIMUM),
                        CanopyEvap (new_CmvCanopyEvap registry CANEVP_MAXIMUM)]
            (storages 2 1 0) (unit_of HRU_STANDARD (3/5) 5 4) daily)
       = Inr [8/5, 1, 2/5]"
proof -
  have two: "[0 ..< 2] = [0, 1::nat]" by (simp add: upt_rec)
  have run: "map_sum id snd
         (RunProcesses [CanopyEvap (new_CmvCanopyEvap registry CANEVP_RUTTER),
                        CanopySublimation (new_CmvCanopySublimation registry SUBLIM_MAXIMUM),
                        CanopyEvap (new_CmvCanopyEvap registry CANEVP_MAXIMUM)]
            (storages 2 1 0) (unit_of HRU_STANDARD (3/5) 5 4) daily)
       = Inr [8/5, 1, 2/5]"
    by (simp add: sample_defs ApplyProcess_def CmvCanopyEvap_GetRatesOfChange_def
        CmvCanopyEvap_ApplyConstraints_def CmvCanopySublimation_GetRatesOfChange_def
        CmvCanopySublimation_ApplyConstraints_def evalE two)
  have h: "0 < timestep daily" "\<not> suppressCompetitiveET daily"
    "0 \<le> forest_coverage (GetSurfaceProps (unit_of HRU_STANDARD (3/5) 5 4))"
    "forest_coverage (GetSurfaceProps (unit_of HRU_STANDARD (3/5) 5 4)) \<le> 1"
    "0 \<le> trunk_fraction (GetVegetationProps (unit_of HRU_STANDARD (3/5) 5 4))"
    "trunk_fraction (GetVegetationProps (unit_of HRU_STANDARD (3/5) 5 4)) \<le> 1"
    "0 < capacity (GetVegVarProps (unit_of HRU_STANDARD (3/5) 5 4))"
    "GetStateVarIndex registry AET \<noteq> GetStateVarIndex registry CANOPY"
    "GetStateVarIndex registry AET \<noteq> GetStateVarIndex registry CANOPY_SNOW"
    "GetStateVarIndex registry AET \<noteq> GetStateVarIndex registry ATMOSPHERE"
    "set [CanopyEvap (new_CmvCanopyEvap registry CANEVP_RUTTER),
          CanopySublimation (new_CmvCanopySublimation registry SUBLIM_MAXIMUM),
          CanopyEvap (new_CmvCanopyEvap registry CANEVP_MAXIMUM)] \<subseteq> PET_limited registry"
    "storages 2 1 0 (GetStateVarIndex registry AET) = 0"
    by (simp_all add: daily_def unit_of_def registry_def storages_def PET_limited_def)
  from ledger_conservation [where state_vars = "storages 2 1 0", OF h] h run show ?thesis
    by (intro conjI)
qed

text \<open>
  Claim C4 as the spec states it fails. One \<^verbatim>\<open>CANEVP_ALL\<close> evaporation on a canopy holding 10
  with a PET of 1 records an AET consumption of 10; and a Maximum evaporation on a unit
  whose coverage is 2 records twice the PET.
\<close>

theorem ledger_conservation_counterexample:
  "\<not> suppressCompetitiveET daily \<and> storages 10 0 0 (GetStateVarIndex registry AET) = 0
   \<and> map_sum id snd
       (RunProcesses [CanopyEvap (new_CmvCanopyEvap registry CANEVP_ALL)]
          (storages 10 0 0) (unit_of HRU_STANDARD (1/2) 5 1) daily) = Inr [10]
   \<and> \<not> sum_list [10] \<le> max (PET (GetForcingFunctions (unit_of HRU_STANDARD (1/2) 5 1))) 0
   \<and> map_sum id snd
       (RunProcesses [CanopyEvap (new_CmvCanopyEvap registry CANEVP_MAXIMUM)]
          (storages 10 0 0) (unit_of HRU_STANDARD 2 5 1) daily) = Inr [2]
   \<and> \<not> sum_list [2] \<le> max (PET (GetForcingFunctions (unit_of HRU_STANDARD 2 5 1))) 0"
  by (simp add: sample_defs ApplyProcess_def CmvCanopyEvap_GetRatesOfChange_def
      CmvCanopyEvap_ApplyConstraints_def evalE)

section \<open>Rate computation\<close>

lemma rate_entries:
  assumes "res = Inr (rates(0 := X, 1 := X))"
  shows "\<exists>r. res = Inr r \<and> r 0 = X \<and> r 1 = r 0"
  using assms by simp

lemma rate_entry:
  assumes "res = Inr (rates(0 := X, 1 := X))"
  shows "\<exists>r. res = Inr r \<and> r 0 = X"
  using assms by simp

text \<open>
  Claim C5 (Rutter evaporation). On a standard or wetland unit with forest coverage
  \<open>Fc > 0\<close> and capacity \<open>cap > 0\<close> (and a budget that can be read: suppression on, or a time
  step that is not zero), the Rutter variant of \<open>GetRatesOfChange\<close> returns a rate vector
  with entry 0 equal to \<open>(1 - Ft) * Fc * budget * (stor / (cap * Fc))\<close>, where \<open>stor\<close> is the
  canopy storage clamped to \<open>[0, cap * Fc]\<close>, \<open>budget\<close> is the PET budget and \<open>Ft\<close> is the
  trunk fraction, taken as 0 when the registry has no trunk compartment; entry 1 records
  the same value. Scenario A (\<open>Fc = 0.6\<close>, \<open>cap = 5\<close>, storage 2, no trunk, PET 4, suppression
  off, AET 0) is the witness: the rate is \<open>1.6\<close>.
\<close>

theorem evap_rutter_rate:
  assumes "applicable pHRU"
    and "0 < forest_coverage (GetSurfaceProps pHRU)"
    and "0 < capacity (GetVegVarProps pHRU)"
    and "suppressCompetitiveET Options \<or> timestep Options \<noteq> 0"
    and "evap_type p = CANEVP_RUTTER"
  shows "\<exists>r. CmvCanopyEvap_GetRatesOfChange p state_vars pHRU Options rates = Inr r
           \<and> r 0 = (1 - (if GetStateVarIndex (pModel p) TRUNK = DOESNT_EXIST then 0
                          else trunk_fraction (GetVegetationProps pHRU)))
                    * forest_coverage (GetSurfaceProps pHRU)
                    * PET_budget (PET (GetForcingFunctions pHRU)) (suppressCompetitiveET Options)
                        (state_vars (GetStateVarIndex (pModel p) AET)) (timestep Options)
                    * (min (max (state_vars (iFrom p 0)) 0)
                         (capacity (GetVegVarProps pHRU) * forest_coverage (GetSurfaceProps pHRU))
                       / (capacity (GetVegVarProps pHRU) * forest_coverage (GetSurfaceProps pHRU)))
           \<and> r 1 = r 0"
proof -
  have Fc: "forest_coverage (GetSurfaceProps pHRU) \<noteq> 0" using assms(2) by simp
  have cap: "capacity (GetVegVarProps pHRU) \<noteq> 0" using assms(3) by simp
  show ?thesis
    by (rule rate_entries [OF evap_rutter_result [OF assms(1) Fc cap assms(4,5) refl]])
qed

theorem evap_rutter_rate_witness:
  "applicable (unit_of HRU_STANDARD (3/5) 5 4)
   \<and> 0 < forest_coverage (GetSurfaceProps (unit_of HRU_STANDARD (3/5) 5 4))
   \<and> 0 < capacity (GetVegVarProps (unit_of HRU_STANDARD (3/5) 5 4))
   \<and> (suppressCompetitiveET daily \<or> timestep daily \<noteq> 0)
   \<and> evap_type (new_CmvCanopyEvap registry CANEVP_RUTTER) = CANEVP_RUTTER
   \<and> GetStateVarIndex registry TRUNK = DOESNT_EXIST
   \<and> (\<exists>r. CmvCanopyEvap_GetRatesOfChange (new_CmvCanopyEvap registry CANEVP_RUTTER)
              (storages 2 0 0) (unit_of HRU_STANDARD (3/5) 5 4) daily (rates_of 0 0) = Inr r
          \<and> r 0 = 16/10 \<and> r 1 = 16/10)"
  using evap_rutter_rate [of "unit_of HRU_STANDARD (3/5) 5 4" daily
      "new_CmvCanopyEvap registry CANEVP_RUTTER" "storages 2 0 0" "rates_of 0 0"]
  by (auto simp: applicable_def unit_of_def daily_def new_CmvCanopyEvap_def registry_def
      storages_def PET_budget_def DOESNT_EXIST_def)

text \<open>
  Claim C6 (the PET budget). On a standard or wetland unit with forest coverage \<open>Fc > 0\<close>,
  the budget that enters the rate formulas of canopy evaporation (Maximum, and Rutter when
  the capacity is not zero) and of canopy sublimation (Maximum) is \<open>PET_budget\<close>: the forcing
  PET cut off at zero when competitive-ET suppression is on, and otherwise that value less
  the AET state variable divided by the time step, cut off at zero again.
\<close>

theorem PET_budget_used:
  assumes "applicable pHRU"
    and "0 < forest_coverage (GetSurfaceProps pHRU)"
    and "suppressCompetitiveET Options \<or> timestep Options \<noteq> 0"
  shows "(evap_type pe = CANEVP_MAXIMUM \<longrightarrow>
            (\<exists>r. CmvCanopyEvap_GetRatesOfChange pe state_vars pHRU Options rates = Inr r
               \<and> r 0 = forest_coverage (GetSurfaceProps pHRU)
                        * PET_budget (PET (GetForcingFunctions pHRU))
                            (suppressCompetitiveET Options)
                            (state_vars (GetStateVarIndex (pModel pe) AET)) (timestep Options)))
       \<and> (evap_type pe = CANEVP_RUTTER \<and> capacity (GetVegVarProps pHRU) \<noteq> 0 \<longrightarrow>
            (\<exists>r. CmvCanopyEvap_GetRatesOfChange pe state_vars pHRU Options rates = Inr r
               \<and> r 0 = (1 - (if GetStateVarIndex (pModel pe) TRUNK = DOESNT_EXIST then 0
                              else trunk_fraction (GetVegetationProps pHRU)))
                        * forest_coverage (GetSurfaceProps pHRU)
                        * PET_budget (PET (GetForcingFunctions pHRU))
                            (suppressCompetitiveET Options)
                            (state_vars (GetStateVarIndex (pModel pe) AET)) (timestep Options)
                        * (min (max (state_vars (iFrom pe 0)) 0)
                             (capacity (GetVegVarProps pHRU)
                              * forest_coverage (GetSurfaceProps pHRU))
                           / (capacity (GetVegVarProps pHRU)
                              * forest_coverage (GetSurfaceProps pHRU)))))
       \<and> (subl_type ps = SUBLIM_MAXIMUM \<longrightarrow>
            (\<exists>r. CmvCanopySublimation_GetRatesOfChange ps state_vars pHRU Options rates = Inr r
               \<and> r 0 = forest_coverage (GetSurfaceProps pHRU)
                        * PET_budget (PET (GetForcingFunctions pHRU))
                            (suppressCompetitiveET Options)
                            (state_vars (GetStateVarIndex (pModel ps) AET)) (timestep Options)))"
proof -
  have Fc: "forest_coverage (GetSurfaceProps pHRU) \<noteq> 0" using assms(2) by simp
  show ?thesis
  proof (intro conjI impI)
    assume "evap_type pe = CANEVP_MAXIMUM"
    from evap_maximum_result [OF assms(1) Fc assms(3) this refl]
    show "\<exists>r. CmvCanopyEvap_GetRatesOfChange pe state_vars pHRU Options rates = Inr r
            \<and> r 0 = forest_coverage (GetSurfaceProps pHRU)
                     * PET_budget (PET (GetForcingFunctions pHRU))
                         (suppressCompetitiveET Options)
                         (state_vars (GetStateVarIndex (pModel pe) AET)) (timestep Options)"
      by (rule rate_entry)
  next
    assume "evap_type pe = CANEVP_RUTTER \<and> capacity (GetVegVarProps pHRU) \<noteq> 0"
    then have ty: "evap_type pe = CANEVP_RUTTER" and cap: "capacity (GetVegVarProps pHRU) \<noteq> 0"
      by simp_all
    from evap_rutter_result [OF assms(1) Fc cap assms(3) ty refl]
    show "\<exists>r. CmvCanopyEvap_GetRatesOfChange pe state_vars pHRU Options rates = Inr r
            \<and> r 0 = (1 - (if GetStateVarIndex (pModel pe) TRUNK = DOESNT_EXIST then 0
                           else trunk_fraction (GetVegetationProps pHRU)))
                     * forest_coverage (GetSurfaceProps pHRU)
                     * PET_budget (PET (GetForcingFunctions pHRU))
                         (suppressCompetitiveET Options)
                         (state_vars (GetStateVarIndex (pModel pe) AET)) (timestep Options)
                     * (min (max (state_vars (iFrom pe 0)) 0)
                          (capacity (GetVegVarProps pHRU)
                           * forest_coverage (GetSurfaceProps pHRU))
                        / (capacity (GetVegVarProps pHRU)
                           * forest_coverage (GetSurfaceProps pHRU)))"
      by (rule rate_entry)
  next
    assume "subl_type ps = SUBLIM_MAXIMUM"
    from subl_maximum_result [OF assms(1) Fc assms(3) this refl]
    show "\<exists>r. CmvCanopySublimation_GetRatesOfChange ps state_vars pHRU Options rates = Inr r
            \<and> r 0 = forest_coverage (GetSurfaceProps pHRU)
                     * PET_budget (PET (GetForcingFunctions pHRU))
                         (suppressCompetitiveET Options)
                         (state_vars (GetStateVarIndex (pModel ps) AET)) (timestep Options)"
      by (rule rate_entry)
  qed
qed

theorem PET_budget_used_witness:
  "applicable (unit_of HRU_STANDARD (3/5) 5 4)
   \<and> 0 < forest_coverage (GetSurfaceProps (unit_of HRU_STANDARD (3/5) 5 4))
   \<and> (suppressCompetitiveET daily \<or> timestep daily \<noteq> 0)
   \<and> evap_type (new_CmvCanopyEvap registry CANEVP_MAXIMUM) = CANEVP_MAXIMUM
   \<and> subl_type (new_CmvCanopySublimation registry SUBLIM_MAXIMUM) = SUBLIM_MAXIMUM
   \<and> PET_budget (PET (GetForcingFunctions (unit_of HRU_STANDARD (3/5) 5 4)))
        (suppressCompetitiveET daily) (storages 2 2 1 (GetStateVarIndex registry AET))
        (timestep daily) = 3
   \<and> (\<exists>r. CmvCanopyEvap_GetRatesOfChange (new_CmvCanopyEvap registry CANEVP_MAXIMUM)
              (storages 2 2 1) (unit_of HRU_STANDARD (3/5) 5 4) daily (rates_of 0 0) = Inr r
          \<and> r 0 = 3/5 * 3)
   \<and> (\<exists>r. CmvCanopySublimation_GetRatesOfChange
              (new_CmvCanopySublimation registry SUBLIM_MAXIMUM)
              (storages 2 2 1) (unit_of HRU_STANDARD (3/5) 5 4) daily (rates_of 0 0) = Inr r
          \<and> r 0 = 3/5 * 3)"
  using PET_budget_used [of "unit_of HRU_STANDARD (3/5) 5 4" daily
      "new_CmvCanopyEvap registry CANEVP_MAXIMUM" "storages 2 2 1" "rates_of 0 0"
      "new_CmvCanopySublimation registry SUBLIM_MAXIMUM"]
  by (auto simp: applicable_def unit_of_def daily_def new_CmvCanopyEvap_def
      new_CmvCanopySublimation_def registry_def storages_def PET_budget_def)

text \<open>
  Claim C7 (rates of a unit the process does not apply to), as the code has it. When the
  unit is neither standard nor wetland, \<open>GetRatesOfChange\<close> of every canopy process hands
  the rate vector back as it was passed in; when the unit is standard or wetland and its
  forest coverage is zero, it sets entry 0 to zero and leaves every other entry as it was
  passed in. So every entry is zero, whatever the PET and the storage, when the rate vector
  passed in holds zeros.
\<close>

theorem inapplicable_rates:
  assumes "\<not> applicable pHRU \<or> forest_coverage (GetSurfaceProps pHRU) = 0"
  shows "GetRatesOfChange pr state_vars pHRU Options rates
           = Inr (if applicable pHRU then rates(0 := 0) else rates)
       \<and> GetRatesOfChange pr state_vars pHRU Options (\<lambda>q. 0) = Inr (\<lambda>q. 0)"
proof (cases pr)
  case (CanopyEvap p)
  with assms show ?thesis
    by (auto simp: applicable_def CmvCanopyEvap_GetRatesOfChange_def)
next
  case (CanopySublimation p)
  with assms show ?thesis
    by (auto simp: applicable_def CmvCanopySublimation_GetRatesOfChange_def)
next
  case (CanopyDrip p)
  with assms show ?thesis
    by (auto simp: applicable_def CmvCanopyDrip_GetRatesOfChange_def)
qed

theorem inapplicable_rates_witness:
  "forest_coverage (GetSurfaceProps (unit_of HRU_STANDARD 0 5 4)) = 0
   \<and> applicable (unit_of HRU_STANDARD 0 5 4)
   \<and> GetRatesOfChange (CanopySublimation (new_CmvCanopySublimation registry SUBLIM_ALL))
        (storages 2 2 0) (unit_of HRU_STANDARD 0 5 4) daily (rates_of 7 7)
      = Inr ((rates_of 7 7)(0 := 0))
   \<and> GetRatesOfChange (CanopySublimation (new_CmvCanopySublimation registry SUBLIM_ALL))
        (storages 2 2 0) (unit_of HRU_STANDARD 0 5 4) daily (\<lambda>q. 0)
      = Inr (\<lambda>q. 0)"
  using inapplicable_rates [of "unit_of HRU_STANDARD 0 5 4"
      "CanopySublimation (new_CmvCanopySublimation registry SUBLIM_ALL)" "storages 2 2 0"
      daily "rates_of 7 7"]
  by (simp add: applicable_def unit_of_def)

text \<open>
  Claim C7 as the spec states it fails on a rate vector that does not hold zeros: on a lake
  unit canopy evaporation hands the entries 7 and 7 back, and on a standard unit without
  forest it hands back 0 and 7, the AET entry untouched.
\<close>

theorem inapplicable_rates_counterexample:
  "\<not> applicable (unit_of HRU_LAKE (3/5) 5 4)
   \<and> GetRatesOfChange (CanopyEvap (new_CmvCanopyEvap registry CANEVP_RUTTER))
        (storages 2 2 0) (unit_of HRU_LAKE (3/5) 5 4) daily (rates_of 7 7)
      = Inr (rates_of 7 7)
   \<and> rates_of 7 7 0 \<noteq> 0
   \<and> applicable (unit_of HRU_STANDARD 0 5 4)
   \<and> forest_coverage (GetSurfaceProps (unit_of HRU_STANDARD 0 5 4)) = 0
   \<and> GetRatesOfChange (CanopyEvap (new_CmvCanopyEvap registry CANEVP_RUTTER))
        (storages 2 2 0) (unit_of HRU_STANDARD 0 5 4) daily (rates_of 7 7)
      = Inr (rates_of 0 7)
   \<and> rates_of 0 7 1 \<noteq> 0"
  by (simp add: applicable_def sample_defs CmvCanopyEvap_GetRatesOfChange_def fun_eq_iff)

text \<open>
  Claim C8 (Rutter drip). On a standard or wetland unit with forest coverage \<open>Fc > 0\<close> (and
  a time step that is not zero, on a registry whose trunk index is the sentinel or a valid
  index), the Rutter variant of canopy drip returns a rate vector with entry 0 equal to
  \<open>(1 - p) * max ((storage - Fc * capacity) / timestep) 0\<close>, where \<open>p\<close> is the stemflow
  fraction, taken as 0 when the registry has no trunk compartment. Scenario C (\<open>Fc = 0.5\<close>,
  capacity 4, storage 3, stemflow fraction \<open>0.2\<close>, time step 1, trunk registered) is the
  witness: the rate is \<open>0.8\<close>.
\<close>

theorem drip_rutter_rate:
  assumes "applicable pHRU"
    and "0 < forest_coverage (GetSurfaceProps pHRU)"
    and "timestep Options \<noteq> 0"
    and "drip_type p = CANDRIP_RUTTER"
    and "GetStateVarIndex (pModel p) TRUNK = DOESNT_EXIST
         \<or> 0 \<le> GetStateVarIndex (pModel p) TRUNK"
  shows "\<exists>r. CmvCanopyDrip_GetRatesOfChange p state_vars pHRU Options rates = Inr r
           \<and> r 0 = (1 - (if GetStateVarIndex (pModel p) TRUNK = DOESNT_EXIST then 0
                          else stemflow_frac (GetVegetationProps pHRU)))
                    * max ((state_vars (iFrom p 0)
                            - forest_coverage (GetSurfaceProps pHRU)
                              * capacity (GetVegVarProps pHRU))
                           / timestep Options) 0"
  using assms
  by (auto simp: applicable_def CmvCanopyDrip_GetRatesOfChange_def threshMax_def evalE
      DOESNT_EXIST_def)

theorem drip_rutter_rate_witness:
  "applicable (unit_of HRU_STANDARD (1/2) 4 0)
   \<and> 0 < forest_coverage (GetSurfaceProps (unit_of HRU_STANDARD (1/2) 4 0))
   \<and> timestep daily \<noteq> 0
   \<and> drip_type (drip_to_ponded registry_with_trunk CANDRIP_RUTTER) = CANDRIP_RUTTER
   \<and> (GetStateVarIndex (pModel (drip_to_ponded registry_with_trunk CANDRIP_RUTTER)) TRUNK
        = DOESNT_EXIST
      \<or> 0 \<le> GetStateVarIndex (pModel (drip_to_ponded registry_with_trunk CANDRIP_RUTTER)) TRUNK)
   \<and> stemflow_frac (GetVegetationProps (unit_of HRU_STANDARD (1/2) 4 0)) = 2/10
   \<and> (\<exists>r. CmvCanopyDrip_GetRatesOfChange (drip_to_ponded registry_with_trunk CANDRIP_RUTTER)
              (storages 3 0 0) (unit_of HRU_STANDARD (1/2) 4 0) daily (rates_of 0 0) = Inr r
          \<and> r 0 = 8/10)"
  using drip_rutter_rate [of "unit_of HRU_STANDARD (1/2) 4 0" daily
      "drip_to_ponded registry_with_trunk CANDRIP_RUTTER" "storages 3 0 0" "rates_of 0 0"]
  by (auto simp: applicable_def unit_of_def daily_def drip_to_ponded_def registry_with_trunk_def
      storages_def DOESNT_EXIST_def)

text \<open>
  Claim C9 (stubs exit). On a standard or wetland unit with forest coverage \<open>Fc > 0\<close>:
  canopy evaporation with a selector that is none of Rutter, Maximum and All, and canopy
  sublimation with a selector that is neither Maximum nor All (the wind-driven variants),
  never return a rate vector; \<open>GetRatesOfChange\<close> ends in the fatal exit with the code
  \<open>STUB\<close> (once the budget has been read: suppression on, or a time step that is not zero).
\<close>

theorem stub_exits:
  assumes "applicable pHRU"
    and "0 < forest_coverage (GetSurfaceProps pHRU)"
  shows "(evap_type pe \<notin> {CANEVP_RUTTER, CANEVP_MAXIMUM, CANEVP_ALL} \<longrightarrow>
            isl (CmvCanopyEvap_GetRatesOfChange pe state_vars pHRU Options rates)
          \<and> (suppressCompetitiveET Options \<or> timestep Options \<noteq> 0 \<longrightarrow>
               CmvCanopyEvap_GetRatesOfChange pe state_vars pHRU Options rates
               = Inl (ExitGracefully ''CmvCanopyEvap: this process not coded yet'' STUB)))
       \<and> (subl_type ps \<notin> {SUBLIM_MAXIMUM, SUBLIM_ALL} \<longrightarrow>
            isl (CmvCanopySublimation_GetRatesOfChange ps state_vars pHRU Options rates)
          \<and> (suppressCompetitiveET Options \<or> timestep Options \<noteq> 0 \<longrightarrow>
               CmvCanopySublimation_GetRatesOfChange ps state_vars pHRU Options rates
               = Inl (ExitGracefully ''SUBLIMATION CANOPY - must adjust wind velocity'' STUB)))"
proof -
  note std = applicable_guard [OF assms(1)]
  have Fc: "forest_coverage (GetSurfaceProps pHRU) \<noteq> 0"
    using assms(2) by simp
  have e: "evap_type pe \<notin> {CANEVP_RUTTER, CANEVP_MAXIMUM, CANEVP_ALL}
           \<longleftrightarrow> evap_type pe = CANEVP_UNDECLARED"
    by (cases "evap_type pe") simp_all
  show ?thesis
    unfolding e
    by (cases "timestep Options = 0")
      (auto simp: CmvCanopyEvap_GetRatesOfChange_def CmvCanopySublimation_GetRatesOfChange_def
        std Fc evalE)
qed

theorem stub_exits_witness:
  "applicable (unit_of HRU_STANDARD (3/5) 5 4)
   \<and> 0 < forest_coverage (GetSurfaceProps (unit_of HRU_STANDARD (3/5) 5 4))
   \<and> evap_type (new_CmvCanopyEvap registry CANEVP_UNDECLARED)
       \<notin> {CANEVP_RUTTER, CANEVP_MAXIMUM, CANEVP_ALL}
   \<and> subl_type (new_CmvCanopySublimation registry SUBLIM_SVERDRUP)
       \<notin> {SUBLIM_MAXIMUM, SUBLIM_ALL}
   \<and> (suppressCompetitiveET daily \<or> timestep daily \<noteq> 0)
   \<and> CmvCanopyEvap_GetRatesOfChange (new_CmvCanopyEvap registry CANEVP_UNDECLARED)
        (storages 2 2 0) (unit_of HRU_STANDARD (3/5) 5 4) daily (rates_of 0 0)
      = Inl (ExitGracefully ''CmvCanopyEvap: this process not coded yet'' STUB)
   \<and> CmvCanopySublimation_GetRatesOfChange (new_CmvCanopySublimation registry SUBLIM_SVERDRUP)
        (storages 2 2 0) (unit_of HRU_STANDARD (3/5) 5 4) daily (rates_of 0 0)
      = Inl (ExitGracefully ''SUBLIMATION CANOPY - must adjust wind velocity'' STUB)"
  using stub_exits [of "unit_of HRU_STANDARD (3/5) 5 4"
      "new_CmvCanopyEvap registry CANEVP_UNDECLARED" "storages 2 2 0" daily "rates_of 0 0"
      "new_CmvCanopySublimation registry SUBLIM_SVERDRUP"]
  by (simp add: applicable_def unit_of_def daily_def new_CmvCanopyEvap_def
      new_CmvCanopySublimation_def)

text \<open>
  Claim C10 (the unguarded division of Rutter evaporation). On a standard or wetland unit
  with forest coverage \<open>Fc > 0\<close> (and a budget that can be read), the Rutter variant divides
  the clamped storage by \<open>cap * Fc\<close> without a test of the capacity: with \<open>cap > 0\<close> it returns
  a rate vector; with \<open>cap = 0\<close> the clamped storage is 0 and the quotient is \<open>0 / 0\<close>, the
  error branch of the division; so for a capacity that is not negative a rate vector comes
  back only if \<open>cap > 0\<close>. The witness is an input with \<open>Fc = 0.6\<close> and \<open>cap = 0\<close>.
\<close>

theorem rutter_capacity_guard:
  assumes "applicable pHRU"
    and "0 < forest_coverage (GetSurfaceProps pHRU)"
    and "suppressCompetitiveET Options \<or> timestep Options \<noteq> 0"
    and "evap_type p = CANEVP_RUTTER"
  shows "(0 < capacity (GetVegVarProps pHRU) \<longrightarrow>
            (\<exists>r. CmvCanopyEvap_GetRatesOfChange p state_vars pHRU Options rates = Inr r))
       \<and> (capacity (GetVegVarProps pHRU) = 0 \<longrightarrow>
            min (max (state_vars (iFrom p 0)) 0)
              (capacity (GetVegVarProps pHRU) * forest_coverage (GetSurfaceProps pHRU)) = 0
          \<and> CmvCanopyEvap_GetRatesOfChange p state_vars pHRU Options rates
            = Inl DivisionByZero)
       \<and> (0 \<le> capacity (GetVegVarProps pHRU) \<longrightarrow>
            ((\<exists>r. CmvCanopyEvap_GetRatesOfChange p state_vars pHRU Options rates = Inr r)
             \<longleftrightarrow> 0 < capacity (GetVegVarProps pHRU)))"
proof -
  note std = applicable_guard [OF assms(1)]
  have Fc: "forest_coverage (GetSurfaceProps pHRU) \<noteq> 0"
    using assms(2) by simp
  note rd = PET_budget_read [OF assms(3)]
  show ?thesis
    using assms(4)
    by (cases "capacity (GetVegVarProps pHRU) = 0")
      (simp_all add: CmvCanopyEvap_GetRatesOfChange_def std Fc rd evalE)
qed

theorem rutter_capacity_guard_witness:
  "applicable (unit_of HRU_STANDARD (3/5) 0 4)
   \<and> 0 < forest_coverage (GetSurfaceProps (unit_of HRU_STANDARD (3/5) 0 4))
   \<and> (suppressCompetitiveET daily \<or> timestep daily \<noteq> 0)
   \<and> evap_type (new_CmvCanopyEvap registry CANEVP_RUTTER) = CANEVP_RUTTER
   \<and> capacity (GetVegVarProps (unit_of HRU_STANDARD (3/5) 0 4)) = 0
   \<and> min (max (storages 2 0 0 (iFrom (new_CmvCanopyEvap registry CANEVP_RUTTER) 0)) 0)
        (capacity (GetVegVarProps (unit_of HRU_STANDARD (3/5) 0 4))
         * forest_coverage (GetSurfaceProps (unit_of HRU_STANDARD (3/5) 0 4))) = 0
   \<and> CmvCanopyEvap_GetRatesOfChange (new_CmvCanopyEvap registry CANEVP_RUTTER)
        (storages 2 0 0) (unit_of HRU_STANDARD (3/5) 0 4) daily (rates_of 0 0)
      = Inl DivisionByZero"
  using rutter_capacity_guard [of "unit_of HRU_STANDARD (3/5) 0 4" daily
      "new_CmvCanopyEvap registry CANEVP_RUTTER" "storages 2 0 0" "rates_of 0 0"]
  by (simp add: applicable_def unit_of_def daily_def new_CmvCanopyEvap_def)

end
